theory Spec2Isabelle
  imports Main "HOL-Library.AList"
begin

section \<open>Data model of a RAFCON state\<close>

text \<open>
  The development follows \<^verbatim>\<open>rafcon/core/states/state.py\<close> (class \<^verbatim>\<open>State\<close>) and
  \<^verbatim>\<open>rafcon/statemachine/states/execution_state.py\<close> (class \<^verbatim>\<open>ExecutionState\<close>).
  Python dictionaries are association lists read with \<^const>\<open>map_of\<close>, written with
  \<^const>\<open>AList.update\<close> and \<^const>\<open>AList.delete\<close>; the order of the list stands for the
  iteration order of the dictionary. Objects that can be raised are values of the type
  \<open>error\<close>; a method that may raise returns \<open>error + 'a\<close> next to the state it leaves
  behind.
\<close>

text \<open>
  The first six constructors are instances of \<^verbatim>\<open>Exception\<close> that \<^verbatim>\<open>str\<close> can format.
  \<open>ExceptionUnicode\<close> is an instance of \<^verbatim>\<open>Exception\<close> built with a unicode message
  outside ASCII: in Python 2, \<^verbatim>\<open>str\<close> of it raises \<^verbatim>\<open>UnicodeEncodeError\<close>. The last three
  can be raised but are no instances of \<^verbatim>\<open>Exception\<close>: \<^verbatim>\<open>SystemExit\<close> (with its exit
  code) and \<^verbatim>\<open>KeyboardInterrupt\<close> derive from \<^verbatim>\<open>BaseException\<close> only, and Python 2 also
  raises instances of old-style classes.
\<close>

datatype error =
    TypeError string
  | AttributeError string
  | ValueError string
  | KeyError string
  | Exception string
  | UnicodeEncodeError string
  | ExceptionUnicode
  | SystemExit int
  | KeyboardInterrupt
  | OldStyleInstance string

text \<open>\<^verbatim>\<open>isinstance(e, Exception)\<close>, which decides whether \<^verbatim>\<open>except Exception\<close> catches.\<close>

fun is_Exception :: "error \<Rightarrow> bool" where
  "is_Exception (SystemExit code) = False"
| "is_Exception KeyboardInterrupt = False"
| "is_Exception (OldStyleInstance s) = False"
| "is_Exception e = True"

text \<open>\<^verbatim>\<open>str(e)\<close>: the message, or the exception that formatting raises.\<close>

fun py_str :: "error \<Rightarrow> error + string" where
  "py_str (TypeError s) = Inr s"
| "py_str (AttributeError s) = Inr s"
| "py_str (ValueError s) = Inr s"
| "py_str (KeyError s) = Inr s"
| "py_str (Exception s) = Inr s"
| "py_str (UnicodeEncodeError s) = Inr s"
| "py_str ExceptionUnicode = Inl (UnicodeEncodeError ''ascii codec cannot encode character'')"
| "py_str (SystemExit code) = Inr []"
| "py_str KeyboardInterrupt = Inr []"
| "py_str (OldStyleInstance s) = Inr s"

text \<open>
  The Python values that travel through ports, queues and leaf procedures. \<open>PList\<close>
  stands for the values that cannot be hashed (lists, and likewise dictionaries and sets).
\<close>

datatype pyval = PNone | PInt int | PStr string | PErr error | PList "pyval list"

datatype pytype = TInt | TStr | TObject

fun isinstance :: "pyval \<Rightarrow> pytype \<Rightarrow> bool" where
  "isinstance v TObject = True"
| "isinstance (PInt i) TInt = True"
| "isinstance (PStr s) TStr = True"
| "isinstance v t = False"

datatype log_entry = Debug string | Error string

datatype StateExecutionStatus = INACTIVE | ACTIVE | EXECUTE_CHILDREN | WAIT_FOR_NEXT_STATE

record outcome =
  outcome_id :: int
  outcome_name :: string

record data_port =
  data_port_id :: int
  port_name :: string
  data_type :: pytype
  default_value :: pyval

record transition =
  from_state :: string
  from_outcome :: int

record data_flow =
  df_from_state :: string
  from_key :: int
  df_to_state :: string
  to_key :: int

text \<open>
  The parent of a state is a container state. Of the container only the parts that the
  methods of \<^verbatim>\<open>State\<close> reach are kept: its transitions, its data flows and its
  \<^verbatim>\<open>check_data_port_connection\<close>, whose code is not part of the sources at hand and is
  therefore a field that any function may fill.
\<close>

record container =
  transitions :: "(int \<times> transition) list"
  data_flows :: "(int \<times> data_flow) list"
  check_data_port_connection :: "data_port \<Rightarrow> bool \<times> string"

record state =
  state_id :: string
  input_data_ports :: "(int \<times> data_port) list"
  output_data_ports :: "(int \<times> data_port) list"
  outcomes :: "(int \<times> outcome) list"
  input_data :: "(string \<times> pyval) list"
  output_data :: "(string \<times> pyval) list"
  preempted :: bool
  started :: bool
  paused :: bool
  concurrency_queue :: "string list option"
  final_outcome :: "outcome option"
  state_execution_status :: StateExecutionStatus
  backward_execution :: bool
  parent :: "container option"
  logger :: "log_entry list"

definition has_key :: "'k \<Rightarrow> ('k \<times> 'v) list \<Rightarrow> bool" where
  "has_key k d = (k \<in> set (map fst d))"

definition is_root_state :: "state \<Rightarrow> bool" where
  "is_root_state st = (parent st = None)"

subsection \<open>Event flags\<close>

definition recursively_preempt_states :: "state \<Rightarrow> state" where
  "recursively_preempt_states st = st\<lparr>preempted := True, paused := False, started := False\<rparr>"

definition recursively_pause_states :: "state \<Rightarrow> state" where
  "recursively_pause_states st = st\<lparr>started := False, paused := True\<rparr>"

definition recursively_resume_states :: "state \<Rightarrow> state" where
  "recursively_resume_states st = st\<lparr>started := True, paused := False\<rparr>"

text \<open>
  Modelled from the spec: the module \<^verbatim>\<open>rafcon.utils.multi_event\<close> is not part of the
  sources; per section 4.6 a composite event is set as soon as one of its two events is,
  \<open>interrupted = preempted \<or> paused\<close> and \<open>unpaused = preempted \<or> started\<close>. A wait on
  a set event returns at once.
\<close>

definition interrupted :: "state \<Rightarrow> bool" where
  "interrupted st = (preempted st \<or> paused st)"

definition unpaused :: "state \<Rightarrow> bool" where
  "unpaused st = (preempted st \<or> started st)"

subsection \<open>Finalization\<close>

text \<open>
  \<^verbatim>\<open>State.finalize\<close>. A \<^verbatim>\<open>Queue.Queue\<close> object is always true in a condition, so the
  test \<^verbatim>\<open>if self.concurrency_queue\<close> asks whether a queue is set; \<^verbatim>\<open>put\<close> appends
  at the end.
\<close>

definition finalize :: "outcome option \<Rightarrow> state \<Rightarrow> state" where
  "finalize oc st =
    (let st1 = (case oc of None \<Rightarrow> st | Some x \<Rightarrow> st\<lparr>final_outcome := Some x\<rparr>);
         st2 = (case concurrency_queue st1 of
                  None \<Rightarrow> st1
                | Some q \<Rightarrow> st1\<lparr>concurrency_queue := Some (q @ [state_id st1])\<rparr>)
     in st2\<lparr>logger := logger st2 @ [Debug ''Finished execution'']\<rparr>)"

subsection \<open>Validity checks for state elements\<close>

text \<open>
  The checks compare objects with \<^verbatim>\<open>is not\<close>. An element stored in one of the
  dictionaries of the state sits under its own id (the setters reject a dictionary whose
  key differs from the id of its value), so the entry \<open>(k, x)\<close> of a dictionary is the
  checked object itself exactly when the checked object is stored in that dictionary and
  \<open>k\<close> is its id. \<open>residence\<close> says where the checked object is stored.
\<close>

datatype residence = Detached | In_outcomes | In_inputs | In_outputs

fun check_outcome_validity_loop ::
  "residence \<Rightarrow> outcome \<Rightarrow> (int \<times> outcome) list \<Rightarrow> bool \<times> string" where
  "check_outcome_validity_loop r c [] = (True, ''valid'')"
| "check_outcome_validity_loop r c ((k, oc) # rest) =
     (if \<not> (r = In_outcomes \<and> k = outcome_id c) then
        (if outcome_id c = k then (False, ''outcome id existing in state'')
         else if outcome_name c = outcome_name oc then (False, ''outcome name existing in state'')
         else check_outcome_validity_loop r c rest)
      else check_outcome_validity_loop r c rest)"

definition check_outcome_validity :: "residence \<Rightarrow> outcome \<Rightarrow> state \<Rightarrow> bool \<times> string" where
  "check_outcome_validity r c st = check_outcome_validity_loop r c (outcomes st)"

fun check_data_port_id_loop ::
  "bool \<Rightarrow> data_port \<Rightarrow> (int \<times> data_port) list \<Rightarrow> bool" where
  "check_data_port_id_loop same_dict dp [] = True"
| "check_data_port_id_loop same_dict dp ((k, p) # rest) =
     (if data_port_id dp = k \<and> \<not> (same_dict \<and> k = data_port_id dp) then False
      else check_data_port_id_loop same_dict dp rest)"

definition check_data_port_id :: "residence \<Rightarrow> data_port \<Rightarrow> state \<Rightarrow> bool \<times> string" where
  "check_data_port_id r dp st =
     (if \<not> check_data_port_id_loop (r = In_inputs) dp (input_data_ports st)
        then (False, ''data port id already existing in state'')
      else if \<not> check_data_port_id_loop (r = In_outputs) dp (output_data_ports st)
        then (False, ''data port id already existing in state'')
      else (True, ''valid''))"

fun check_data_port_name_loop ::
  "bool \<Rightarrow> data_port \<Rightarrow> (int \<times> data_port) list \<Rightarrow> bool" where
  "check_data_port_name_loop same_dict dp [] = True"
| "check_data_port_name_loop same_dict dp ((k, p) # rest) =
     (if port_name dp = port_name p \<and> \<not> (same_dict \<and> k = data_port_id dp) then False
      else check_data_port_name_loop same_dict dp rest)"

definition check_data_port_name :: "residence \<Rightarrow> data_port \<Rightarrow> state \<Rightarrow> bool \<times> string" where
  "check_data_port_name r dp st =
     (if has_key (data_port_id dp) (input_data_ports st) then
        (if \<not> check_data_port_name_loop (r = In_inputs) dp (input_data_ports st)
           then (False, ''data port name already existing in state's input data ports'')
         else (True, ''valid''))
      else if has_key (data_port_id dp) (output_data_ports st) then
        (if \<not> check_data_port_name_loop (r = In_outputs) dp (output_data_ports st)
           then (False, ''data port name already existing in state's output data ports'')
         else (True, ''valid''))
      else (True, ''valid''))"

text \<open>
  \<^verbatim>\<open>_check_data_port_validity\<close>. The state modelled here is no container, so a root
  state is valid once id and name are; a child asks its parent.
\<close>

definition check_data_port_validity :: "residence \<Rightarrow> data_port \<Rightarrow> state \<Rightarrow> bool \<times> string" where
  "check_data_port_validity r dp st =
     (case check_data_port_id r dp st of
        (False, message) \<Rightarrow> (False, message)
      | (True, _) \<Rightarrow>
          (case check_data_port_name r dp st of
             (False, message) \<Rightarrow> (False, message)
           | (True, _) \<Rightarrow>
               (case parent st of
                  Some c \<Rightarrow> check_data_port_connection c dp
                | None \<Rightarrow> (True, ''valid''))))"

text \<open>
  Modelled from the spec: the classes \<^verbatim>\<open>Outcome\<close>, \<^verbatim>\<open>InputDataPort\<close> and
  \<^verbatim>\<open>OutputDataPort\<close> (package \<^verbatim>\<open>rafcon.core.state_elements\<close>) are not part of the
  sources. Per section 3 an element is attached to a parent, "which runs validation", and
  per section 4.2 every operation validates before it applies; the docstring of
  \<^verbatim>\<open>check_child_validity\<close> in \<^verbatim>\<open>state.py\<close> says that the method "is called by state
  child objects (outcomes, data ports) when these are initialized or changed", and the
  setters of \<^verbatim>\<open>state.py\<close> catch the \<^verbatim>\<open>ValueError\<close> of a failed assignment of
  \<^verbatim>\<open>parent\<close>. So assigning the parent of an element, in its constructor or afterwards,
  runs \<^verbatim>\<open>check_child_validity\<close> of the state and raises \<^verbatim>\<open>ValueError\<close> with the message
  of the check when the element is not valid. The state itself is not changed by it.
\<close>

definition set_parent_outcome :: "residence \<Rightarrow> outcome \<Rightarrow> state \<Rightarrow> error option" where
  "set_parent_outcome r c st =
     (case check_outcome_validity r c st of
        (True, _) \<Rightarrow> None
      | (False, message) \<Rightarrow> Some (ValueError message))"

definition set_parent_data_port :: "residence \<Rightarrow> data_port \<Rightarrow> state \<Rightarrow> error option" where
  "set_parent_data_port r dp st =
     (case check_data_port_validity r dp st of
        (True, _) \<Rightarrow> None
      | (False, message) \<Rightarrow> Some (ValueError message))"

subsection \<open>Outcomes\<close>

fun set_parent_all :: "(int \<times> outcome) list \<Rightarrow> state \<Rightarrow> error option" where
  "set_parent_all [] st = None"
| "set_parent_all ((k, oc) # rest) st =
     (case set_parent_outcome In_outcomes oc st of
        Some e \<Rightarrow> Some e
      | None \<Rightarrow> set_parent_all rest st)"

text \<open>
  One of the two closing statements of the setter of \<^verbatim>\<open>outcomes\<close>:
  \<^verbatim>\<open>if i not in outcomes: self._outcomes[i] = Outcome(outcome_id=i, name=n, parent=self)\<close>.
  The constructor runs before the dictionary is written, so an exception of the
  constructor leaves the dictionary without the entry.
\<close>

definition insert_reserved :: "int \<Rightarrow> string \<Rightarrow> state \<Rightarrow> error option \<times> state" where
  "insert_reserved i n st =
     (if has_key i (outcomes st) then (None, st)
      else (case set_parent_outcome Detached \<lparr>outcome_id = i, outcome_name = n\<rparr> st of
              Some e \<Rightarrow> (Some e, st)
            | None \<Rightarrow>
                (None, st\<lparr>outcomes :=
                   AList.update i \<lparr>outcome_id = i, outcome_name = n\<rparr> (outcomes st)\<rparr>)))"

text \<open>
  The setter of \<^verbatim>\<open>outcomes\<close>. The two \<^verbatim>\<open>isinstance\<close> tests hold by the type of the
  argument. The result is the exception raised, if any, and the state left behind.
\<close>

definition outcomes_setter :: "(int \<times> outcome) list \<Rightarrow> state \<Rightarrow> error option \<times> state" where
  "outcomes_setter new st =
     (if list_ex (\<lambda>(k, oc). \<not> k = outcome_id oc) new
        then (Some (AttributeError ''The key of the outcomes dictionary and the id of the outcome do not match''), st)
      else
        (let old_outcomes = outcomes st;
             st1 = st\<lparr>outcomes := new\<rparr>
         in case set_parent_all new st1 of
              Some e \<Rightarrow> (Some e, st1\<lparr>outcomes := old_outcomes\<rparr>)
            | None \<Rightarrow>
                (case insert_reserved (- 1) ''aborted'' st1 of
                   (Some e, st2) \<Rightarrow> (Some e, st2)
                 | (None, st2) \<Rightarrow> insert_reserved (- 2) ''preempted'' st2)))"

text \<open>
  In \<^verbatim>\<open>add_outcome\<close> the test \<^verbatim>\<open>name in self._outcomes\<close> looks the name up among the
  keys of the dictionary, which are the integer ids; Python never finds a \<^verbatim>\<open>str\<close> equal
  to an \<^verbatim>\<open>int\<close>.
\<close>

definition str_eq_int :: "string \<Rightarrow> int \<Rightarrow> bool" where
  "str_eq_int s i = False"

text \<open>
  \<^verbatim>\<open>generate_outcome_id\<close> and \<^verbatim>\<open>generate_data_port_id\<close> belong to
  \<^verbatim>\<open>rafcon.core.id_generator\<close>, which is not part of the sources; the generator is the
  parameter \<open>gen\<close>, handed the ids in use. The result of \<^verbatim>\<open>add_outcome\<close> is the exception
  raised or the value returned, \<open>None\<close> for a bare \<^verbatim>\<open>return\<close>.
\<close>

definition add_outcome ::
  "(int list \<Rightarrow> int) \<Rightarrow> string \<Rightarrow> int option \<Rightarrow> state \<Rightarrow> (error + int option) \<times> state" where
  "add_outcome gen name oid st =
     (let new_id = (case oid of None \<Rightarrow> gen (map fst (outcomes st)) | Some i \<Rightarrow> i) in
      if list_ex (\<lambda>(k, oc). str_eq_int name k) (outcomes st)
        then (Inr None, st\<lparr>logger := logger st @ [Error ''Two outcomes cannot have the same names'']\<rparr>)
      else if has_key new_id (outcomes st)
        then (Inr None, st\<lparr>logger := logger st @ [Error ''Two outcomes cannot have the same outcome_ids'']\<rparr>)
      else
        (case set_parent_outcome Detached \<lparr>outcome_id = new_id, outcome_name = name\<rparr> st of
           Some e \<Rightarrow> (Inl e, st)
         | None \<Rightarrow>
             (Inr (Some new_id),
              st\<lparr>outcomes :=
                 AList.update new_id \<lparr>outcome_id = new_id, outcome_name = name\<rparr> (outcomes st)\<rparr>)))"

text \<open>
  Modelled from the spec: \<^verbatim>\<open>remove_transition\<close> and \<^verbatim>\<open>remove_data_flow\<close> of the parent
  container are not part of the sources; per section 4.2 the cascade removes the
  transition, respectively the data flow, with the given id from the container.
\<close>

definition remove_transition :: "int \<Rightarrow> container \<Rightarrow> container" where
  "remove_transition tid c = c\<lparr>transitions := AList.delete tid (transitions c)\<rparr>"

definition remove_data_flow :: "int \<Rightarrow> container \<Rightarrow> container" where
  "remove_data_flow did c = c\<lparr>data_flows := AList.delete did (data_flows c)\<rparr>"

definition remove_outcome :: "int \<Rightarrow> bool \<Rightarrow> state \<Rightarrow> error option \<times> state" where
  "remove_outcome oid force st =
     (if \<not> has_key oid (outcomes st)
        then (Some (AttributeError ''There is no outcome_id''), st)
      else if \<not> force \<and> (oid = - 1 \<or> oid = - 2)
        then (Some (AttributeError ''You cannot remove the outcomes with id -1 or -2''), st)
      else
        (let st1 =
           (case parent st of
              None \<Rightarrow> st
            | Some c \<Rightarrow>
                (case find (\<lambda>(tid, t). from_outcome t = oid \<and> from_state t = state_id st)
                        (transitions c) of
                   None \<Rightarrow> st
                 | Some (tid, t) \<Rightarrow> st\<lparr>parent := Some (remove_transition tid c)\<rparr>))
         in (None, st1\<lparr>outcomes := AList.delete oid (outcomes st1)\<rparr>)))"

subsection \<open>Data ports\<close>

definition get_data_port_ids :: "state \<Rightarrow> int list" where
  "get_data_port_ids st = map fst (input_data_ports st) @ map fst (output_data_ports st)"

definition add_input_data_port ::
  "(int list \<Rightarrow> int) \<Rightarrow> string \<Rightarrow> pytype \<Rightarrow> pyval \<Rightarrow> int option \<Rightarrow> state
     \<Rightarrow> (error + int) \<times> state" where
  "add_input_data_port gen name dt dv pid st =
     (let new_id = (case pid of None \<Rightarrow> gen (get_data_port_ids st) | Some i \<Rightarrow> i);
          port = \<lparr>data_port_id = new_id, port_name = name, data_type = dt,
                  default_value = dv\<rparr>
      in case set_parent_data_port Detached port st of
           Some e \<Rightarrow> (Inl e, st)
         | None \<Rightarrow>
             (let st1 = st\<lparr>input_data_ports := AList.update new_id port (input_data_ports st)\<rparr>
              in case check_data_port_name In_inputs port st1 of
                   (False, message) \<Rightarrow>
                     (Inl (ValueError message),
                      st1\<lparr>input_data_ports := AList.delete new_id (input_data_ports st1)\<rparr>)
                 | (True, _) \<Rightarrow> (Inr new_id, st1)))"

definition add_output_data_port ::
  "(int list \<Rightarrow> int) \<Rightarrow> string \<Rightarrow> pytype \<Rightarrow> pyval \<Rightarrow> int option \<Rightarrow> state
     \<Rightarrow> (error + int) \<times> state" where
  "add_output_data_port gen name dt dv pid st =
     (let new_id = (case pid of None \<Rightarrow> gen (get_data_port_ids st) | Some i \<Rightarrow> i);
          port = \<lparr>data_port_id = new_id, port_name = name, data_type = dt,
                  default_value = dv\<rparr>
      in case set_parent_data_port Detached port st of
           Some e \<Rightarrow> (Inl e, st)
         | None \<Rightarrow>
             (let st1 = st\<lparr>output_data_ports := AList.update new_id port (output_data_ports st)\<rparr>
              in case check_data_port_name In_outputs port st1 of
                   (False, message) \<Rightarrow>
                     (Inl (ValueError message),
                      st1\<lparr>output_data_ports := AList.delete new_id (output_data_ports st1)\<rparr>)
                 | (True, _) \<Rightarrow> (Inr new_id, st1)))"

text \<open>
  The port object that \<^verbatim>\<open>add_input_data_port\<close> and \<^verbatim>\<open>add_output_data_port\<close> build from
  their arguments, with the id given or else generated.
\<close>

definition new_port :: "(int list \<Rightarrow> int) \<Rightarrow> string \<Rightarrow> pytype \<Rightarrow> pyval \<Rightarrow> int option \<Rightarrow> state \<Rightarrow> data_port" where
  "new_port gen name dt dv pid st =
     \<lparr>data_port_id = (case pid of None \<Rightarrow> gen (get_data_port_ids st) | Some i \<Rightarrow> i),
      port_name = name, data_type = dt, default_value = dv\<rparr>"

definition remove_data_flows_with_data_port_id :: "int \<Rightarrow> state \<Rightarrow> state" where
  "remove_data_flows_with_data_port_id pid st =
     (case parent st of
        None \<Rightarrow> st
      | Some c \<Rightarrow>
          (let data_flow_ids_to_remove =
                 map fst (filter (\<lambda>(did, df).
                    df_from_state df = state_id st \<and> from_key df = pid
                    \<or> df_to_state df = state_id st \<and> to_key df = pid) (data_flows c))
           in st\<lparr>parent := Some (fold remove_data_flow data_flow_ids_to_remove c)\<rparr>))"

definition remove_input_data_port :: "int \<Rightarrow> bool \<Rightarrow> state \<Rightarrow> error option \<times> state" where
  "remove_input_data_port pid force st =
     (if has_key pid (input_data_ports st) then
        (let st1 = remove_data_flows_with_data_port_id pid st
         in (None, st1\<lparr>input_data_ports := AList.delete pid (input_data_ports st1)\<rparr>))
      else (Some (AttributeError ''input data port does not exist''), st))"

definition remove_output_data_port :: "int \<Rightarrow> bool \<Rightarrow> state \<Rightarrow> error option \<times> state" where
  "remove_output_data_port pid force st =
     (if has_key pid (output_data_ports st) then
        (let st1 = remove_data_flows_with_data_port_id pid st
         in (None, st1\<lparr>output_data_ports := AList.delete pid (output_data_ports st1)\<rparr>))
      else (Some (AttributeError ''output data port does not exist''), st))"

subsection \<open>Destruction\<close>

text \<open>
  Each loop of \<^verbatim>\<open>destruct\<close> runs over a copy of the keys (\<^verbatim>\<open>keys()\<close>) and stops at the
  first exception. For the small integers \<open>-1\<close> and \<open>-2\<close> the test \<^verbatim>\<open>is not\<close> of the
  source agrees with inequality.
\<close>

fun for_each :: "('k \<Rightarrow> state \<Rightarrow> error option \<times> state) \<Rightarrow> 'k list \<Rightarrow> state \<Rightarrow> error option \<times> state" where
  "for_each f [] st = (None, st)"
| "for_each f (k # ks) st =
     (case f k st of
        (Some e, st1) \<Rightarrow> (Some e, st1)
      | (None, st1) \<Rightarrow> for_each f ks st1)"

text \<open>The body of the third loop of \<^verbatim>\<open>destruct\<close>.\<close>

definition remove_unless_reserved :: "int \<Rightarrow> state \<Rightarrow> error option \<times> state" where
  "remove_unless_reserved outcome_key st =
     (if outcome_key \<noteq> - 1 \<and> outcome_key \<noteq> - 2
        then remove_outcome outcome_key True st else (None, st))"

definition destruct :: "state \<Rightarrow> error option \<times> state" where
  "destruct st =
     (case for_each (\<lambda>in_key. remove_input_data_port in_key True)
             (map fst (input_data_ports st)) st of
        (Some e, st1) \<Rightarrow> (Some e, st1)
      | (None, st1) \<Rightarrow>
          (case for_each (\<lambda>out_key. remove_output_data_port out_key True)
                  (map fst (output_data_ports st1)) st1 of
             (Some e, st2) \<Rightarrow> (Some e, st2)
           | (None, st2) \<Rightarrow>
               for_each remove_unless_reserved (map fst (outcomes st2)) st2))"

subsection \<open>Default input values\<close>









subsection \<open>Running an execution state\<close>

text \<open>
  \<^verbatim>\<open>ExecutionState\<close> inherits \<^verbatim>\<open>setup_run\<close>, \<^verbatim>\<open>setup_backward_run\<close>, the type checks
  and \<^verbatim>\<open>finalize\<close> from \<^verbatim>\<open>State\<close>; they are taken from the class \<^verbatim>\<open>State\<close> above.
\<close>

text \<open>
  The two type checks only log. A port is reported when the data dictionary has a value
  other than \<open>None\<close> under its name that is no instance of its type.
\<close>

definition type_conflicts :: "string \<Rightarrow> (int \<times> data_port) list \<Rightarrow> (string \<times> pyval) list \<Rightarrow> log_entry list" where
  "type_conflicts message ports data =
     concat (map (\<lambda>(k, port).
       (case map_of data (port_name port) of
          None \<Rightarrow> []
        | Some v \<Rightarrow> if v \<noteq> PNone \<and> \<not> isinstance v (data_type port) then [Error message] else []))
       ports)"

definition check_input_data_type :: "state \<Rightarrow> state" where
  "check_input_data_type st =
     st\<lparr>logger := logger st @ type_conflicts ''Input of execute function has the wrong type''
        (input_data_ports st) (input_data st)\<rparr>"

definition check_output_data_type :: "state \<Rightarrow> state" where
  "check_output_data_type st =
     st\<lparr>logger := logger st @ type_conflicts ''Output of execute function has the wrong type''
        (output_data_ports st) (output_data st)\<rparr>"

text \<open>
  \<^verbatim>\<open>setup_run\<close>; its two \<^verbatim>\<open>isinstance\<close> tests on \<^verbatim>\<open>input_data\<close> and
  \<^verbatim>\<open>output_data\<close> hold by the types of the fields.
\<close>

definition setup_run :: "state \<Rightarrow> state" where
  "setup_run st = check_input_data_type (st\<lparr>state_execution_status := ACTIVE, preempted := False\<rparr>)"

definition setup_backward_run :: "state \<Rightarrow> state" where
  "setup_backward_run st = st\<lparr>state_execution_status := ACTIVE, preempted := False\<rparr>"

text \<open>
  The script of an execution state is user code outside the program; the class
  \<^verbatim>\<open>Script\<close> is not part of the sources. What \<^verbatim>\<open>_execute\<close> can see of it is kept:
  \<^verbatim>\<open>build_module\<close> may raise; \<^verbatim>\<open>execute\<close>, given the state, the input data, the output
  data and the direction, returns a value or raises, leaves the output dictionary as it
  has written it, and while it runs another thread may set the preempted flag of the
  state.
\<close>

datatype completion = Returned pyval | Raised error

record body_result =
  completion :: completion
  new_outputs :: "(string \<times> pyval) list"
  preempt_request :: bool

record script =
  build_module :: "error option"
  execute :: "state \<Rightarrow> (string \<times> pyval) list \<Rightarrow> (string \<times> pyval) list \<Rightarrow> bool \<Rightarrow> body_result"

text \<open>
  The tests \<^verbatim>\<open>outcome_item in self.outcomes\<close> and \<^verbatim>\<open>outcome.name == outcome_item\<close>.
  Membership in a dictionary hashes the value first and raises \<^verbatim>\<open>TypeError\<close> for a value
  that cannot be hashed; otherwise it answers with the key found, if any.
\<close>

fun item_in_outcomes :: "pyval \<Rightarrow> (int \<times> outcome) list \<Rightarrow> error + int option" where
  "item_in_outcomes (PInt i) d = Inr (if has_key i d then Some i else None)"
| "item_in_outcomes (PList xs) d = Inl (TypeError ''unhashable type'')"
| "item_in_outcomes v d = Inr None"

definition name_is_item :: "string \<Rightarrow> pyval \<Rightarrow> bool" where
  "name_is_item n v = (v = PStr n)"

text \<open>
  \<^verbatim>\<open>ExecutionState._execute\<close>. The result is the exception that leaves the method or the
  value returned, \<open>None\<close> for the bare \<^verbatim>\<open>return\<close> of backward execution.
\<close>

definition execute_script :: "script \<Rightarrow> bool \<Rightarrow> state \<Rightarrow> (error + outcome option) \<times> state" where
  "execute_script sc backward st =
     (case build_module sc of
        Some e \<Rightarrow> (Inl e, st)
      | None \<Rightarrow>
          (let r = execute sc st (input_data st) (output_data st) backward;
               st1 = st\<lparr>output_data := new_outputs r,
                        preempted := preempted st \<or> preempt_request r\<rparr>
           in case completion r of
                Raised e \<Rightarrow> (Inl e, st1)
              | Returned outcome_item \<Rightarrow>
                  if backward then (Inr None, st1)
                  else if preempted st1
                    then (Inr (Some \<lparr>outcome_id = - 2, outcome_name = ''preempted''\<rparr>), st1)
                  else
                    (case item_in_outcomes outcome_item (outcomes st1) of
                       Inl e \<Rightarrow> (Inl e, st1)
                     | Inr (Some i) \<Rightarrow> (Inr (map_of (outcomes st1) i), st1)
                     | Inr None \<Rightarrow>
                         (case find (\<lambda>(oid, oc). name_is_item (outcome_name oc) outcome_item)
                                 (outcomes st1) of
                            Some (oid, oc) \<Rightarrow> (Inr (map_of (outcomes st1) oid), st1)
                          | None \<Rightarrow>
                              (Inr (Some \<lparr>outcome_id = - 1, outcome_name = ''aborted''\<rparr>),
                               st1\<lparr>logger := logger st1
                                    @ [Error ''Returned outcome for execution state not existing'']\<rparr>)))))"

text \<open>
  The body of the \<^verbatim>\<open>except Exception\<close> clause of \<^verbatim>\<open>ExecutionState.run\<close>. Its first
  statement formats \<^verbatim>\<open>str(e)\<close> for the log; when that raises, the exception leaves the
  clause, and with it \<^verbatim>\<open>run\<close>, before anything is stored.
\<close>

definition handle_exception :: "error \<Rightarrow> state \<Rightarrow> error option \<times> state" where
  "handle_exception e st =
     (case py_str e of
        Inl e' \<Rightarrow> (Some e', st)
      | Inr message \<Rightarrow>
          (None,
           finalize (Some \<lparr>outcome_id = - 1, outcome_name = ''aborted''\<rparr>)
             (st\<lparr>logger := logger st @ [Error ''State had an internal error''],
                 output_data := AList.update ''error'' (PErr e) (output_data st),
                 state_execution_status := WAIT_FOR_NEXT_STATE\<rparr>)))"

text \<open>
  \<^verbatim>\<open>ExecutionState.run\<close>. The \<^verbatim>\<open>except\<close> clause catches the instances of
  \<^verbatim>\<open>Exception\<close>; anything else that is raised leaves \<^verbatim>\<open>run\<close>. The result is the
  exception that leaves \<^verbatim>\<open>run\<close>, if any, and the state after the run.
\<close>

definition run :: "script \<Rightarrow> state \<Rightarrow> error option \<times> state" where
  "run sc st =
     (let st0 = (if backward_execution st then setup_backward_run st else setup_run st) in
      if backward_execution st0 then
        (let st1 = st0\<lparr>logger := logger st0 @ [Debug ''Backward executing state'']\<rparr>
         in case execute_script sc True st1 of
              (Inl e, st2) \<Rightarrow> if is_Exception e then handle_exception e st2 else (Some e, st2)
            | (Inr outcome, st2) \<Rightarrow>
                (None,
                 finalize None
                   (st2\<lparr>state_execution_status := WAIT_FOR_NEXT_STATE,
                        logger := logger st2 @ [Debug ''Finished backward executing state'']\<rparr>)))
      else
        (let st1 = st0\<lparr>logger := logger st0 @ [Debug ''Executing state'']\<rparr>
         in case execute_script sc False st1 of
              (Inl e, st2) \<Rightarrow> if is_Exception e then handle_exception e st2 else (Some e, st2)
            | (Inr outcome, st2) \<Rightarrow>
                (None,
                 finalize outcome
                   (check_output_data_type
                      (st2\<lparr>state_execution_status := WAIT_FOR_NEXT_STATE\<rparr>)))))"

text \<open>
  The state on which \<^verbatim>\<open>run\<close> calls the script, and the result of that call.
\<close>

definition state_at_call :: "state \<Rightarrow> state" where
  "state_at_call st =
     (let st0 = (if backward_execution st then setup_backward_run st else setup_run st) in
      st0\<lparr>logger := logger st0 @
        [Debug (if backward_execution st0 then ''Backward executing state'' else ''Executing state'')]\<rparr>)"

definition body_call :: "script \<Rightarrow> state \<Rightarrow> body_result" where
  "body_call sc st =
     execute sc (state_at_call st) (input_data (state_at_call st)) (output_data (state_at_call st))
       (backward_execution st)"

subsection \<open>Example states\<close>

definition aborted :: outcome where
  "aborted = \<lparr>outcome_id = - 1, outcome_name = ''aborted''\<rparr>"

definition preempted_outcome :: outcome where
  "preempted_outcome = \<lparr>outcome_id = - 2, outcome_name = ''preempted''\<rparr>"

definition success :: outcome where
  "success = \<lparr>outcome_id = 0, outcome_name = ''success''\<rparr>"

text \<open>A freshly constructed root state: no ports, the default outcome and the reserved ones.\<close>

definition fresh_state :: state where
  "fresh_state =
     \<lparr>state_id = ''S1'', input_data_ports = [], output_data_ports = [],
      outcomes = [(0, success), (- 1, aborted), (- 2, preempted_outcome)],
      input_data = [], output_data = [],
      preempted = False, started = False, paused = False,
      concurrency_queue = None, final_outcome = None,
      state_execution_status = INACTIVE, backward_execution = False,
      parent = None, logger = []\<rparr>"

text \<open>A root state with an input port, an output port and one more outcome.\<close>

definition ported_state :: state where
  "ported_state =
     fresh_state\<lparr>
       input_data_ports :=
         [(1, \<lparr>data_port_id = 1, port_name = ''a'', data_type = TInt, default_value = PNone\<rparr>)],
       output_data_ports :=
         [(2, \<lparr>data_port_id = 2, port_name = ''b'', data_type = TInt, default_value = PNone\<rparr>)],
       outcomes :=
         [(0, success), (- 1, aborted), (- 2, preempted_outcome),
          (3, \<lparr>outcome_id = 3, outcome_name = ''again''\<rparr>)]\<rparr>"

text \<open>A state that belongs to a concurrency group: its queue is set and still empty.\<close>

definition queued_state :: state where
  "queued_state = fresh_state\<lparr>concurrency_queue := Some []\<rparr>"

text \<open>
  Two scripts: one whose body returns a given value and one whose body raises a given
  exception, both leaving the output data alone.
\<close>

definition returning_script :: "pyval \<Rightarrow> script" where
  "returning_script v =
     \<lparr>build_module = None,
      execute = (\<lambda>st inputs outputs backward.
         \<lparr>completion = Returned v, new_outputs = outputs, preempt_request = False\<rparr>)\<rparr>"

definition raising_script :: "error \<Rightarrow> script" where
  "raising_script e =
     \<lparr>build_module = None,
      execute = (\<lambda>st inputs outputs backward.
         \<lparr>completion = Raised e, new_outputs = outputs, preempt_request = False\<rparr>)\<rparr>"

text \<open>A state started for backward execution.\<close>

definition backward_state :: state where
  "backward_state = fresh_state\<lparr>backward_execution := True\<rparr>"




section \<open>Properties\<close>

text \<open>
  C6. \<^verbatim>\<open>recursively_preempt_states\<close> sets the preempted flag and clears the paused and
  the started flag, after which both composite events are set, so that a wait on
  \<open>interrupted\<close> or on \<open>unpaused\<close> returns; applying it twice gives the same state
  as applying it once.
\<close>

theorem recursively_preempt_states_idempotent:
  "preempted (recursively_preempt_states st)
   \<and> \<not> paused (recursively_preempt_states st)
   \<and> \<not> started (recursively_preempt_states st)
   \<and> interrupted (recursively_preempt_states st)
   \<and> unpaused (recursively_preempt_states st)
   \<and> recursively_preempt_states (recursively_preempt_states st) = recursively_preempt_states st"
  by (simp add: recursively_preempt_states_def interrupted_def unpaused_def)

subsection \<open>Removing ports and outcomes\<close>

lemma has_key_iff: "has_key k d \<longleftrightarrow> k \<in> fst ` set d"
  by (simp add: has_key_def)

lemma rdf_fields [simp]:
  "input_data_ports (remove_data_flows_with_data_port_id p st) = input_data_ports st"
  "output_data_ports (remove_data_flows_with_data_port_id p st) = output_data_ports st"
  "outcomes (remove_data_flows_with_data_port_id p st) = outcomes st"
  by (simp_all add: remove_data_flows_with_data_port_id_def Let_def split: option.splits)

lemma remove_input_data_port_present:
  assumes "has_key k (input_data_ports st)"
  shows "fst (remove_input_data_port k f st) = None"
    and "input_data_ports (snd (remove_input_data_port k f st)) = AList.delete k (input_data_ports st)"
    and "output_data_ports (snd (remove_input_data_port k f st)) = output_data_ports st"
    and "outcomes (snd (remove_input_data_port k f st)) = outcomes st"
  using assms by (simp_all add: remove_input_data_port_def Let_def)

lemma remove_output_data_port_present:
  assumes "has_key k (output_data_ports st)"
  shows "fst (remove_output_data_port k f st) = None"
    and "output_data_ports (snd (remove_output_data_port k f st)) = AList.delete k (output_data_ports st)"
    and "input_data_ports (snd (remove_output_data_port k f st)) = input_data_ports st"
    and "outcomes (snd (remove_output_data_port k f st)) = outcomes st"
  using assms by (simp_all add: remove_output_data_port_def Let_def)

lemma remove_outcome_forced:
  assumes "has_key k (outcomes st)"
  shows "fst (remove_outcome k True st) = None"
    and "outcomes (snd (remove_outcome k True st)) = AList.delete k (outcomes st)"
    and "input_data_ports (snd (remove_outcome k True st)) = input_data_ports st"
    and "output_data_ports (snd (remove_outcome k True st)) = output_data_ports st"
  using assms by (simp_all add: remove_outcome_def Let_def split: option.splits prod.splits)

lemma delete_as_filter: "AList.delete k d = filter (\<lambda>(k', v). k' \<noteq> k) d"
  by (induction d) auto

lemma keys_delete: "fst ` set (AList.delete k d) = fst ` set d - {k}"
  by (induction d) auto

lemma for_each_remove_inputs:
  "distinct ks \<Longrightarrow> set ks \<subseteq> fst ` set (input_data_ports st) \<Longrightarrow>
   fst (for_each (\<lambda>k. remove_input_data_port k True) ks st) = None
   \<and> input_data_ports (snd (for_each (\<lambda>k. remove_input_data_port k True) ks st))
       = filter (\<lambda>(k, v). k \<notin> set ks) (input_data_ports st)
   \<and> output_data_ports (snd (for_each (\<lambda>k. remove_input_data_port k True) ks st)) = output_data_ports st
   \<and> outcomes (snd (for_each (\<lambda>k. remove_input_data_port k True) ks st)) = outcomes st"
proof (induction ks arbitrary: st)
  case Nil
  then show ?case by simp
next
  case (Cons k ks)
  obtain e st1 where r: "remove_input_data_port k True st = (e, st1)" by (cases "remove_input_data_port k True st")
  have hk: "has_key k (input_data_ports st)" using Cons.prems by (auto simp: has_key_def)
  have e: "e = None" and i1: "input_data_ports st1 = AList.delete k (input_data_ports st)"
    and o1: "output_data_ports st1 = output_data_ports st" and oc1: "outcomes st1 = outcomes st"
    using remove_input_data_port_present[OF hk, of True] r by simp_all
  have sub: "set ks \<subseteq> fst ` set (input_data_ports st1)"
    using Cons.prems by (auto simp: i1 keys_delete)
  have d: "distinct ks" using Cons.prems by simp
  note IH = Cons.IH[OF d sub]
  have filt: "filter (\<lambda>(k', v). k' \<notin> set ks) (AList.delete k (input_data_ports st))
      = filter (\<lambda>(k', v). k' \<notin> set (k # ks)) (input_data_ports st)"
    by (auto simp: delete_as_filter intro!: filter_cong)
  show ?case using IH by (simp add: r e i1 o1 oc1 filt)
qed


lemma for_each_remove_outputs:
  "distinct ks \<Longrightarrow> set ks \<subseteq> fst ` set (output_data_ports st) \<Longrightarrow>
   fst (for_each (\<lambda>k. remove_output_data_port k True) ks st) = None
   \<and> output_data_ports (snd (for_each (\<lambda>k. remove_output_data_port k True) ks st))
       = filter (\<lambda>(k, v). k \<notin> set ks) (output_data_ports st)
   \<and> input_data_ports (snd (for_each (\<lambda>k. remove_output_data_port k True) ks st)) = input_data_ports st
   \<and> outcomes (snd (for_each (\<lambda>k. remove_output_data_port k True) ks st)) = outcomes st"
proof (induction ks arbitrary: st)
  case Nil
  then show ?case by simp
next
  case (Cons k ks)
  obtain e st1 where r: "remove_output_data_port k True st = (e, st1)"
    by (cases "remove_output_data_port k True st")
  have hk: "has_key k (output_data_ports st)" using Cons.prems by (auto simp: has_key_def)
  have e: "e = None" and o1: "output_data_ports st1 = AList.delete k (output_data_ports st)"
    and i1: "input_data_ports st1 = input_data_ports st" and oc1: "outcomes st1 = outcomes st"
    using remove_output_data_port_present[OF hk, of True] r by simp_all
  have sub: "set ks \<subseteq> fst ` set (output_data_ports st1)"
    using Cons.prems by (auto simp: o1 keys_delete)
  have d: "distinct ks" using Cons.prems by simp
  note IH = Cons.IH[OF d sub]
  have filt: "filter (\<lambda>(k', v). k' \<notin> set ks) (AList.delete k (output_data_ports st))
      = filter (\<lambda>(k', v). k' \<notin> set (k # ks)) (output_data_ports st)"
    by (auto simp: delete_as_filter intro!: filter_cong)
  show ?case using IH by (simp add: r e i1 o1 oc1 filt)
qed

lemma for_each_remove_outcomes:
  "distinct ks \<Longrightarrow> set ks \<subseteq> fst ` set (outcomes st) \<Longrightarrow>
   fst (for_each remove_unless_reserved ks st) = None
   \<and> outcomes (snd (for_each remove_unless_reserved ks st))
       = filter (\<lambda>(k, v). k \<notin> set ks \<or> k = - 1 \<or> k = - 2) (outcomes st)
   \<and> input_data_ports (snd (for_each remove_unless_reserved ks st)) = input_data_ports st
   \<and> output_data_ports (snd (for_each remove_unless_reserved ks st)) = output_data_ports st"
proof (induction ks arbitrary: st)
  case Nil
  then show ?case by simp
next
  case (Cons k ks)
  have d: "distinct ks" and nk: "k \<notin> set ks" using Cons.prems by simp_all
  show ?case
  proof (cases "k \<noteq> - 1 \<and> k \<noteq> - 2")
    case True
    obtain e st1 where r: "remove_outcome k True st = (e, st1)"
      by (cases "remove_outcome k True st")
    have hk: "has_key k (outcomes st)" using Cons.prems by (auto simp: has_key_def)
    have e: "e = None" and oc1: "outcomes st1 = AList.delete k (outcomes st)"
      and i1: "input_data_ports st1 = input_data_ports st"
      and o1: "output_data_ports st1 = output_data_ports st"
      using remove_outcome_forced[OF hk] r by simp_all
    have sub: "set ks \<subseteq> fst ` set (outcomes st1)"
      using Cons.prems by (auto simp: oc1 keys_delete)
    note IH = Cons.IH[OF d sub]
    have filt: "filter (\<lambda>(k', v). k' \<notin> set ks \<or> k' = - 1 \<or> k' = - 2) (AList.delete k (outcomes st))
        = filter (\<lambda>(k', v). k' \<notin> set (k # ks) \<or> k' = - 1 \<or> k' = - 2) (outcomes st)"
      using True by (auto simp: delete_as_filter intro!: filter_cong)
    have rk: "remove_unless_reserved k st = (None, st1)"
      using True r e by (simp add: remove_unless_reserved_def)
    have step: "for_each remove_unless_reserved (k # ks) st = for_each remove_unless_reserved ks st1"
      by (simp add: rk)
    show ?thesis using IH unfolding step oc1 i1 o1 filt .
  next
    case False
    have sub: "set ks \<subseteq> fst ` set (outcomes st)" using Cons.prems by simp
    note IH = Cons.IH[OF d sub]
    have filt: "filter (\<lambda>(k', v). k' \<notin> set ks \<or> k' = - 1 \<or> k' = - 2) (outcomes st)
        = filter (\<lambda>(k', v). k' \<notin> set (k # ks) \<or> k' = - 1 \<or> k' = - 2) (outcomes st)"
      using False by (auto intro!: filter_cong)
    have rk: "remove_unless_reserved k st = (None, st)"
      using False by (auto simp add: remove_unless_reserved_def)
    have step: "for_each remove_unless_reserved (k # ks) st = for_each remove_unless_reserved ks st"
      by (simp add: rk)
    show ?thesis using IH unfolding step filt .
  qed
qed


lemma filter_all_keys: "filter (\<lambda>(k, v). k \<notin> fst ` set d) d = []"
  by (force simp: filter_empty_conv)

lemma remove_input_data_port_absent:
  "\<not> has_key k (input_data_ports st) \<Longrightarrow> fst (remove_input_data_port k f st) \<noteq> None"
  by (simp add: remove_input_data_port_def)

lemma remove_output_data_port_absent:
  "\<not> has_key k (output_data_ports st) \<Longrightarrow> fst (remove_output_data_port k f st) \<noteq> None"
  by (simp add: remove_output_data_port_def)

lemma remove_outcome_absent:
  "\<not> has_key k (outcomes st) \<Longrightarrow> fst (remove_outcome k f st) \<noteq> None"
  by (simp add: remove_outcome_def)

lemma for_each_step:
  "fst (for_each f (k # ks) st) = None \<Longrightarrow>
     fst (f k st) = None \<and> for_each f (k # ks) st = for_each f ks (snd (f k st))"
  by (cases "f k st") (auto split: option.splits)

lemma for_each_inputs_returned:
  "fst (for_each (\<lambda>k. remove_input_data_port k True) ks st) = None \<Longrightarrow>
   input_data_ports (snd (for_each (\<lambda>k. remove_input_data_port k True) ks st))
       = filter (\<lambda>(k, v). k \<notin> set ks) (input_data_ports st)
   \<and> output_data_ports (snd (for_each (\<lambda>k. remove_input_data_port k True) ks st)) = output_data_ports st
   \<and> outcomes (snd (for_each (\<lambda>k. remove_input_data_port k True) ks st)) = outcomes st"
proof (induction ks arbitrary: st)
  case Nil
  then show ?case by simp
next
  case (Cons k ks)
  let ?st1 = "snd (remove_input_data_port k True st)"
  have ok: "fst (remove_input_data_port k True st) = None"
    and step: "for_each (\<lambda>k. remove_input_data_port k True) (k # ks) st
        = for_each (\<lambda>k. remove_input_data_port k True) ks ?st1"
    using for_each_step[OF Cons.prems] by simp_all
  have hk: "has_key k (input_data_ports st)"
    using ok remove_input_data_port_absent[of k st True] by blast
  have i1: "input_data_ports ?st1 = AList.delete k (input_data_ports st)"
    and o1: "output_data_ports ?st1 = output_data_ports st" and oc1: "outcomes ?st1 = outcomes st"
    using remove_input_data_port_present[OF hk, of True] by simp_all
  have ret: "fst (for_each (\<lambda>k. remove_input_data_port k True) ks ?st1) = None"
    using Cons.prems step by simp
  note IH = Cons.IH[OF ret]
  have filt: "filter (\<lambda>(k', v). k' \<notin> set ks) (AList.delete k (input_data_ports st))
      = filter (\<lambda>(k', v). k' \<notin> set (k # ks)) (input_data_ports st)"
    by (auto simp: delete_as_filter intro!: filter_cong)
  show ?case using IH unfolding step i1 o1 oc1 filt .
qed

lemma for_each_outputs_returned:
  "fst (for_each (\<lambda>k. remove_output_data_port k True) ks st) = None \<Longrightarrow>
   output_data_ports (snd (for_each (\<lambda>k. remove_output_data_port k True) ks st))
       = filter (\<lambda>(k, v). k \<notin> set ks) (output_data_ports st)
   \<and> input_data_ports (snd (for_each (\<lambda>k. remove_output_data_port k True) ks st)) = input_data_ports st
   \<and> outcomes (snd (for_each (\<lambda>k. remove_output_data_port k True) ks st)) = outcomes st"
proof (induction ks arbitrary: st)
  case Nil
  then show ?case by simp
next
  case (Cons k ks)
  let ?st1 = "snd (remove_output_data_port k True st)"
  have ok: "fst (remove_output_data_port k True st) = None"
    and step: "for_each (\<lambda>k. remove_output_data_port k True) (k # ks) st
        = for_each (\<lambda>k. remove_output_data_port k True) ks ?st1"
    using for_each_step[OF Cons.prems] by simp_all
  have hk: "has_key k (output_data_ports st)"
    using ok remove_output_data_port_absent[of k st True] by blast
  have o1: "output_data_ports ?st1 = AList.delete k (output_data_ports st)"
    and i1: "input_data_ports ?st1 = input_data_ports st" and oc1: "outcomes ?st1 = outcomes st"
    using remove_output_data_port_present[OF hk, of True] by simp_all
  have ret: "fst (for_each (\<lambda>k. remove_output_data_port k True) ks ?st1) = None"
    using Cons.prems step by simp
  note IH = Cons.IH[OF ret]
  have filt: "filter (\<lambda>(k', v). k' \<notin> set ks) (AList.delete k (output_data_ports st))
      = filter (\<lambda>(k', v). k' \<notin> set (k # ks)) (output_data_ports st)"
    by (auto simp: delete_as_filter intro!: filter_cong)
  show ?case using IH unfolding step i1 o1 oc1 filt .
qed

lemma for_each_outcomes_returned:
  "fst (for_each remove_unless_reserved ks st) = None \<Longrightarrow>
   outcomes (snd (for_each remove_unless_reserved ks st))
       = filter (\<lambda>(k, v). k \<notin> set ks \<or> k = - 1 \<or> k = - 2) (outcomes st)
   \<and> input_data_ports (snd (for_each remove_unless_reserved ks st)) = input_data_ports st
   \<and> output_data_ports (snd (for_each remove_unless_reserved ks st)) = output_data_ports st"
proof (induction ks arbitrary: st)
  case Nil
  then show ?case by simp
next
  case (Cons k ks)
  let ?st1 = "snd (remove_unless_reserved k st)"
  have ok: "fst (remove_unless_reserved k st) = None"
    and step: "for_each remove_unless_reserved (k # ks) st = for_each remove_unless_reserved ks ?st1"
    using for_each_step[OF Cons.prems] by simp_all
  have ret: "fst (for_each remove_unless_reserved ks ?st1) = None"
    using Cons.prems step by simp
  note IH = Cons.IH[OF ret]
  show ?case
  proof (cases "k \<noteq> - 1 \<and> k \<noteq> - 2")
    case True
    have rk: "remove_unless_reserved k st = remove_outcome k True st"
      using True by (simp add: remove_unless_reserved_def)
    have hk: "has_key k (outcomes st)"
      using ok remove_outcome_absent[of k st True] unfolding rk by blast
    have oc1: "outcomes ?st1 = AList.delete k (outcomes st)"
      and i1: "input_data_ports ?st1 = input_data_ports st"
      and o1: "output_data_ports ?st1 = output_data_ports st"
      using remove_outcome_forced[OF hk] unfolding rk by simp_all
    have filt: "filter (\<lambda>(k', v). k' \<notin> set ks \<or> k' = - 1 \<or> k' = - 2) (AList.delete k (outcomes st))
        = filter (\<lambda>(k', v). k' \<notin> set (k # ks) \<or> k' = - 1 \<or> k' = - 2) (outcomes st)"
      using True by (auto simp: delete_as_filter intro!: filter_cong)
    show ?thesis using IH unfolding step oc1 i1 o1 filt .
  next
    case False
    have rk: "remove_unless_reserved k st = (None, st)"
      using False by (auto simp add: remove_unless_reserved_def)
    have s1: "?st1 = st" by (simp add: rk)
    have filt: "filter (\<lambda>(k', v). k' \<notin> set ks \<or> k' = - 1 \<or> k' = - 2) (outcomes st)
        = filter (\<lambda>(k', v). k' \<notin> set (k # ks) \<or> k' = - 1 \<or> k' = - 2) (outcomes st)"
      using False by (auto intro!: filter_cong)
    show ?thesis using IH unfolding step s1 filt .
  qed
qed

lemma destruct_returned:
  assumes "fst (destruct st) = None"
  shows "input_data_ports (snd (destruct st)) = []"
    and "output_data_ports (snd (destruct st)) = []"
    and "outcomes (snd (destruct st)) = filter (\<lambda>(k, v). k = - 1 \<or> k = - 2) (outcomes st)"
proof -
  let ?r1 = "for_each (\<lambda>in_key. remove_input_data_port in_key True) (map fst (input_data_ports st)) st"
  obtain e1 st1 where r1: "?r1 = (e1, st1)" by (cases ?r1)
  have e1: "e1 = None" using assms r1 by (cases e1) (simp_all add: destruct_def)
  have l1: "input_data_ports st1 = []" "output_data_ports st1 = output_data_ports st"
      "outcomes st1 = outcomes st"
    using for_each_inputs_returned[of "map fst (input_data_ports st)" st] r1 e1
    by (simp_all add: filter_all_keys)
  let ?r2 = "for_each (\<lambda>out_key. remove_output_data_port out_key True) (map fst (output_data_ports st1)) st1"
  obtain e2 st2 where r2: "?r2 = (e2, st2)" by (cases ?r2)
  have e2: "e2 = None" using assms r1 e1 r2 by (cases e2) (simp_all add: destruct_def)
  have l2: "output_data_ports st2 = []" "input_data_ports st2 = []" "outcomes st2 = outcomes st"
    using for_each_outputs_returned[of "map fst (output_data_ports st1)" st1] r2 e2 l1
    by (simp_all add: filter_all_keys)
  let ?r3 = "for_each remove_unless_reserved (map fst (outcomes st2)) st2"
  have d: "destruct st = ?r3" by (simp add: destruct_def r1 e1 r2 e2)
  have ret3: "fst ?r3 = None" using assms d by simp
  have l3: "input_data_ports (snd ?r3) = []" "output_data_ports (snd ?r3) = []"
      "outcomes (snd ?r3) = filter (\<lambda>(k, v). k \<notin> fst ` set (outcomes st) \<or> k = - 1 \<or> k = - 2) (outcomes st)"
    using for_each_outcomes_returned[OF ret3] l2 by simp_all
  have f: "filter (\<lambda>(k, v). k \<notin> fst ` set (outcomes st) \<or> k = - 1 \<or> k = - 2) (outcomes st)
      = filter (\<lambda>(k, v). k = - 1 \<or> k = - 2) (outcomes st)"
    by (force intro!: filter_cong)
  show "input_data_ports (snd (destruct st)) = []" unfolding d by (rule l3(1))
  show "output_data_ports (snd (destruct st)) = []" unfolding d by (rule l3(2))
  show "outcomes (snd (destruct st)) = filter (\<lambda>(k, v). k = - 1 \<or> k = - 2) (outcomes st)"
    unfolding d using l3(3) unfolding f .
qed

lemma destruct_returns:
  assumes "distinct (map fst (input_data_ports st))"
    and "distinct (map fst (output_data_ports st))"
    and "distinct (map fst (outcomes st))"
  shows "fst (destruct st) = None"
proof -
  let ?r1 = "for_each (\<lambda>in_key. remove_input_data_port in_key True) (map fst (input_data_ports st)) st"
  obtain e1 st1 where r1: "?r1 = (e1, st1)" by (cases ?r1)
  have l1: "e1 = None" "output_data_ports st1 = output_data_ports st" "outcomes st1 = outcomes st"
    using for_each_remove_inputs[OF assms(1), of st] r1 by simp_all
  let ?r2 = "for_each (\<lambda>out_key. remove_output_data_port out_key True) (map fst (output_data_ports st1)) st1"
  obtain e2 st2 where r2: "?r2 = (e2, st2)" by (cases ?r2)
  have d2: "distinct (map fst (output_data_ports st1))" using assms(2) l1 by simp
  have l2: "e2 = None" "outcomes st2 = outcomes st"
    using for_each_remove_outputs[OF d2, of st1] r2 l1 by simp_all
  let ?r3 = "for_each remove_unless_reserved (map fst (outcomes st2)) st2"
  have d3: "distinct (map fst (outcomes st2))" using assms(3) l2 by simp
  have l3: "fst ?r3 = None" using for_each_remove_outcomes[OF d3, of st2] by simp
  have d: "destruct st = ?r3" by (simp add: destruct_def r1 l1(1) r2 l2(1))
  show ?thesis unfolding d by (rule l3)
qed

text \<open>
  \<^verbatim>\<open>remove_outcome(-1, force=True)\<close> succeeds on a constructed state; \<^verbatim>\<open>destruct\<close> on the
  state it leaves keeps the one reserved outcome that is still there, \<open>-2\<close>, alone.
\<close>

theorem destruct_after_forced_removal:
  "fst (remove_outcome (- 1) True fresh_state) = None
   \<and> fst (destruct (snd (remove_outcome (- 1) True fresh_state))) = None
   \<and> map fst (outcomes (snd (destruct (snd (remove_outcome (- 1) True fresh_state))))) = [- 2]"
  by (simp add: destruct_def remove_unless_reserved_def remove_outcome_def has_key_def
      fresh_state_def Let_def)

text \<open>
  C10, as the code has it. On a state whose three dictionaries have distinct keys, as
  dictionaries have, \<^verbatim>\<open>destruct\<close> returns without an exception. Whenever it returns
  without an exception, both port dictionaries are empty and the outcomes are those of
  the former outcomes whose id is \<open>-1\<close> or \<open>-2\<close>: \<^verbatim>\<open>destruct\<close> removes every port and
  every other outcome, removes no reserved outcome and adds none. So the outcomes are
  exactly the two reserved ones when the state had both.
\<close>

theorem destruct_keeps_reserved_only:
  "(distinct (map fst (input_data_ports st)) \<and> distinct (map fst (output_data_ports st))
      \<and> distinct (map fst (outcomes st)) \<longrightarrow> fst (destruct st) = None)
   \<and> (fst (destruct st) = None \<longrightarrow>
        input_data_ports (snd (destruct st)) = []
        \<and> output_data_ports (snd (destruct st)) = []
        \<and> outcomes (snd (destruct st)) = filter (\<lambda>(k, v). k = - 1 \<or> k = - 2) (outcomes st))
   \<and> (fst (destruct st) = None \<and> has_key (- 1) (outcomes st) \<and> has_key (- 2) (outcomes st) \<longrightarrow>
        set (map fst (outcomes (snd (destruct st)))) = {- 1, - 2})"
proof -
  have keys: "has_key (- 1) (outcomes st) \<and> has_key (- 2) (outcomes st) \<Longrightarrow>
      set (map fst (filter (\<lambda>(k, v). k = - 1 \<or> k = - 2) (outcomes st))) = {- 1, - 2}"
    by (auto simp: has_key_def)
  show ?thesis
    using destruct_returns[of st] destruct_returned[of st] keys by auto
qed

theorem destruct_keeps_reserved_only_witness:
  "fst (destruct ported_state) = None
   \<and> input_data_ports (snd (destruct ported_state)) = []
   \<and> output_data_ports (snd (destruct ported_state)) = []
   \<and> outcomes (snd (destruct ported_state)) = [(- 1, aborted), (- 2, preempted_outcome)]
   \<and> set (map fst (outcomes (snd (destruct ported_state)))) = {- 1, - 2}"
  using destruct_keeps_reserved_only [of ported_state]
  by (simp add: ported_state_def fresh_state_def has_key_def)

subsection \<open>Finalization\<close>

text \<open>
  C4, as the code has it. \<^verbatim>\<open>finalize\<close> with an outcome stores it as the final outcome of
  the state; when the concurrency queue is set it appends the \<^verbatim>\<open>state_id\<close> alone to the
  queue, and when no queue is set nothing is posted. The outcome is not part of what is
  posted: the parent reads it from \<^verbatim>\<open>final_outcome\<close>.
\<close>

theorem finalize_posts_state_id:
  "final_outcome (finalize (Some oc) st) = Some oc
   \<and> concurrency_queue (finalize (Some oc) st)
       = (case concurrency_queue st of None \<Rightarrow> None | Some q \<Rightarrow> Some (q @ [state_id st]))"
  by (simp add: finalize_def Let_def split: option.splits)

text \<open>
  The item posted for the outcome \<open>success\<close> and the item posted for the outcome
  \<open>aborted\<close> are the same string \<open>S1\<close>, the id of the state: no pair of id and outcome.
\<close>

theorem finalize_posts_no_outcome:
  "concurrency_queue (finalize (Some success) queued_state) = Some [''S1'']
   \<and> concurrency_queue (finalize (Some aborted) queued_state) = Some [''S1'']
   \<and> success \<noteq> aborted"
  by (simp add: finalize_def queued_state_def fresh_state_def success_def aborted_def)

subsection \<open>Reserved outcomes\<close>

text \<open>
  C1, evaluated where it fails. Assigning the dictionary \<open>{5: Outcome(5, "aborted")}\<close>
  to \<^verbatim>\<open>outcomes\<close> of a constructed state passes the loop over the new outcomes; the
  constructor of the reserved outcome \<open>-1\<close>, named "aborted" as well, then fails the
  validity check of the state, after the point up to which the setter restores the old
  dictionary. The setter raises \<^verbatim>\<open>ValueError\<close> and the state is left with the new
  dictionary, which holds neither \<open>-1\<close> nor \<open>-2\<close>.
\<close>

theorem outcomes_setter_name_clash:
  "outcomes_setter [(5, \<lparr>outcome_id = 5, outcome_name = ''aborted''\<rparr>)] fresh_state
     = (Some (ValueError ''outcome name existing in state''),
        fresh_state\<lparr>outcomes := [(5, \<lparr>outcome_id = 5, outcome_name = ''aborted''\<rparr>)]\<rparr>)
   \<and> \<not> has_key (- 1) (outcomes (snd (outcomes_setter
          [(5, \<lparr>outcome_id = 5, outcome_name = ''aborted''\<rparr>)] fresh_state)))
   \<and> \<not> has_key (- 2) (outcomes (snd (outcomes_setter
          [(5, \<lparr>outcome_id = 5, outcome_name = ''aborted''\<rparr>)] fresh_state)))"
  by (simp add: outcomes_setter_def insert_reserved_def set_parent_outcome_def
      check_outcome_validity_def has_key_def fresh_state_def Let_def)

subsection \<open>Adding an outcome\<close>

lemma outcome_loop_name_clash:
  "outcome_id c \<notin> fst ` set d \<Longrightarrow> outcome_name c \<in> outcome_name ` snd ` set d \<Longrightarrow>
   check_outcome_validity_loop Detached c d = (False, ''outcome name existing in state'')"
  by (induction d) force+

text \<open>
  \<^verbatim>\<open>add_outcome\<close> with the id \<open>0\<close>, which the state already has, raises nothing: it
  returns \<open>None\<close>.
\<close>

theorem add_outcome_existing_id_returns_silently:
  "fst (add_outcome (\<lambda>ids. 7) ''again'' (Some 0) fresh_state) = Inr None
   \<and> has_key 0 (outcomes fresh_state)"
  by (simp add: add_outcome_def has_key_def fresh_state_def str_eq_int_def)

text \<open>
  C8, as the code has it. When the id of the new outcome (the one given, or else the one
  generated) is already a key of the outcomes, \<^verbatim>\<open>add_outcome\<close> logs an error and returns
  \<open>None\<close> without raising, the outcomes unchanged. When the id is new and the name is the
  name of an outcome of the state, \<^verbatim>\<open>add_outcome\<close> raises \<^verbatim>\<open>ValueError\<close>, the state
  unchanged.
\<close>

theorem add_outcome_duplicates:
  "(has_key (case oid of None \<Rightarrow> gen (map fst (outcomes st)) | Some i \<Rightarrow> i) (outcomes st) \<longrightarrow>
      add_outcome gen name oid st
        = (Inr None,
           st\<lparr>logger := logger st @ [Error ''Two outcomes cannot have the same outcome_ids'']\<rparr>))
   \<and> (\<not> has_key (case oid of None \<Rightarrow> gen (map fst (outcomes st)) | Some i \<Rightarrow> i) (outcomes st)
        \<and> name \<in> outcome_name ` snd ` set (outcomes st) \<longrightarrow>
      add_outcome gen name oid st = (Inl (ValueError ''outcome name existing in state''), st))"
  using outcome_loop_name_clash [of "\<lparr>outcome_id = (case oid of None \<Rightarrow> gen (map fst (outcomes st)) | Some i \<Rightarrow> i), outcome_name = name\<rparr>" "outcomes st"]
  by (simp add: add_outcome_def Let_def str_eq_int_def list_ex_iff set_parent_outcome_def
      check_outcome_validity_def has_key_def split: prod.splits)

theorem add_outcome_duplicates_witness:
  "add_outcome (\<lambda>ids. 7) ''again'' (Some 0) fresh_state
     = (Inr None, fresh_state\<lparr>logger := [Error ''Two outcomes cannot have the same outcome_ids'']\<rparr>)
   \<and> add_outcome (\<lambda>ids. 7) ''success'' None fresh_state
     = (Inl (ValueError ''outcome name existing in state''), fresh_state)"
  using add_outcome_duplicates [where oid = "Some 0" and gen = "\<lambda>ids. 7" and st = fresh_state and name = "''again''"]
    add_outcome_duplicates [where oid = None and gen = "\<lambda>ids. 7" and st = fresh_state and name = "''success''"]
  by (simp add: has_key_def fresh_state_def success_def aborted_def preempted_outcome_def)

subsection \<open>Adding a data port\<close>

lemma id_loop_detached:
  "check_data_port_id_loop False dp d \<longleftrightarrow> data_port_id dp \<notin> fst ` set d"
  by (induction d) (auto split: if_splits)

lemma name_loop_stored:
  "check_data_port_name_loop True dp d \<longleftrightarrow>
     (\<forall>(k, p) \<in> set d. port_name p = port_name dp \<longrightarrow> k = data_port_id dp)"
  by (induction d) (auto split: if_splits)

lemma update_fresh: "k \<notin> fst ` set d \<Longrightarrow> AList.update k v d = d @ [(k, v)]"
  by (induction d) auto

lemma set_parent_data_port_None:
  "set_parent_data_port Detached dp st = None \<Longrightarrow>
     data_port_id dp \<notin> fst ` set (input_data_ports st)
     \<and> data_port_id dp \<notin> fst ` set (output_data_ports st)"
  by (auto simp: set_parent_data_port_def check_data_port_validity_def check_data_port_id_def
      id_loop_detached split: prod.splits if_splits bool.splits)

lemma set_parent_data_port_Some:
  "set_parent_data_port r dp st = Some e \<Longrightarrow> \<exists>m. e = ValueError m"
  by (auto simp: set_parent_data_port_def split: prod.splits bool.splits)

lemma set_parent_data_port_fresh:
  assumes "data_port_id dp \<notin> set (get_data_port_ids st)"
    and "case parent st of None \<Rightarrow> True | Some c \<Rightarrow> fst (check_data_port_connection c dp)"
  shows "set_parent_data_port Detached dp st = None"
  using assms
  by (auto simp: set_parent_data_port_def check_data_port_validity_def check_data_port_id_def
      check_data_port_name_def has_key_def get_data_port_ids_def id_loop_detached
      split: prod.splits option.splits bool.splits)

lemma add_input_outcome_cases:
  "add_input_data_port gen name dt dv pid st =
    (let p = new_port gen name dt dv pid st in
     case set_parent_data_port Detached p st of
       Some e \<Rightarrow> (Inl e, st)
     | None \<Rightarrow>
         if name \<in> port_name ` snd ` set (input_data_ports st)
         then (Inl (ValueError ''data port name already existing in state's input data ports''), st)
         else (Inr (data_port_id p), st\<lparr>input_data_ports := input_data_ports st @ [(data_port_id p, p)]\<rparr>))"
proof (cases "set_parent_data_port Detached (new_port gen name dt dv pid st) st")
  case (Some e)
  then show ?thesis by (simp add: add_input_data_port_def new_port_def Let_def)
next
  case None
  let ?p = "new_port gen name dt dv pid st"
  have fresh: "data_port_id ?p \<notin> fst ` set (input_data_ports st)"
    using set_parent_data_port_None[OF None] by simp
  have upd: "AList.update (data_port_id ?p) ?p (input_data_ports st) = input_data_ports st @ [(data_port_id ?p, ?p)]"
    using fresh by (rule update_fresh)
  have nn: "port_name ?p = name" by (simp add: new_port_def)
  have loop: "check_data_port_name_loop True ?p (input_data_ports st @ [(data_port_id ?p, ?p)])
      \<longleftrightarrow> name \<notin> port_name ` snd ` set (input_data_ports st)"
    unfolding name_loop_stored using fresh nn by force
  have del: "AList.delete (data_port_id ?p) (input_data_ports st @ [(data_port_id ?p, ?p)]) = input_data_ports st"
    using fresh by (force simp: delete_as_filter filter_id_conv)
  show ?thesis
    using None upd loop del
    by (simp add: add_input_data_port_def new_port_def Let_def check_data_port_name_def has_key_def)
qed

lemma add_output_outcome_cases:
  "add_output_data_port gen name dt dv pid st =
    (let p = new_port gen name dt dv pid st in
     case set_parent_data_port Detached p st of
       Some e \<Rightarrow> (Inl e, st)
     | None \<Rightarrow>
         if name \<in> port_name ` snd ` set (output_data_ports st)
         then (Inl (ValueError ''data port name already existing in state's output data ports''), st)
         else (Inr (data_port_id p), st\<lparr>output_data_ports := output_data_ports st @ [(data_port_id p, p)]\<rparr>))"
proof (cases "set_parent_data_port Detached (new_port gen name dt dv pid st) st")
  case (Some e)
  then show ?thesis by (simp add: add_output_data_port_def new_port_def Let_def)
next
  case None
  let ?p = "new_port gen name dt dv pid st"
  have fresh: "data_port_id ?p \<notin> fst ` set (output_data_ports st)"
    using set_parent_data_port_None[OF None] by simp
  have upd: "AList.update (data_port_id ?p) ?p (output_data_ports st) = output_data_ports st @ [(data_port_id ?p, ?p)]"
    using fresh by (rule update_fresh)
  have nn: "port_name ?p = name" by (simp add: new_port_def)
  have loop: "check_data_port_name_loop True ?p (output_data_ports st @ [(data_port_id ?p, ?p)])
      \<longleftrightarrow> name \<notin> port_name ` snd ` set (output_data_ports st)"
    unfolding name_loop_stored using fresh nn by force
  have del: "AList.delete (data_port_id ?p) (output_data_ports st @ [(data_port_id ?p, ?p)]) = output_data_ports st"
    using fresh by (force simp: delete_as_filter filter_id_conv)
  have notin: "data_port_id ?p \<notin> fst ` set (input_data_ports st)"
    using set_parent_data_port_None[OF None] by simp
  show ?thesis
    using None upd loop del notin
    by (simp add: add_output_data_port_def new_port_def Let_def check_data_port_name_def has_key_def)
qed


text \<open>
  C7. \<^verbatim>\<open>add_input_data_port\<close> called with a name that an input port of the state already
  has raises \<^verbatim>\<open>ValueError\<close> and leaves the state as it was; when moreover the id of the
  new port is not in use and the connection check of the parent, if there is one, accepts
  the port, the error is the duplicate-name error of \<^verbatim>\<open>_check_data_port_name\<close>. Whenever
  the call raises, the state is unchanged. When it returns, it returns the id of the new
  port, that id was not in use, no input port had the name, and the input ports are the
  former ones followed by the one new port. The same holds for
  \<^verbatim>\<open>add_output_data_port\<close> and the output ports.
\<close>

theorem add_data_port_all_or_nothing:
  "(name \<in> port_name ` snd ` set (input_data_ports st) \<longrightarrow>
      (\<exists>m. add_input_data_port gen name dt dv pid st = (Inl (ValueError m), st)))
   \<and> (name \<in> port_name ` snd ` set (input_data_ports st)
        \<and> data_port_id (new_port gen name dt dv pid st) \<notin> set (get_data_port_ids st)
        \<and> (case parent st of None \<Rightarrow> True
            | Some c \<Rightarrow> fst (check_data_port_connection c (new_port gen name dt dv pid st))) \<longrightarrow>
      add_input_data_port gen name dt dv pid st
        = (Inl (ValueError ''data port name already existing in state's input data ports''), st))
   \<and> (isl (fst (add_input_data_port gen name dt dv pid st)) \<longrightarrow>
        snd (add_input_data_port gen name dt dv pid st) = st)
   \<and> (\<not> isl (fst (add_input_data_port gen name dt dv pid st)) \<longrightarrow>
        add_input_data_port gen name dt dv pid st
          = (Inr (data_port_id (new_port gen name dt dv pid st)),
             st\<lparr>input_data_ports := input_data_ports st
                @ [(data_port_id (new_port gen name dt dv pid st), new_port gen name dt dv pid st)]\<rparr>)
        \<and> data_port_id (new_port gen name dt dv pid st) \<notin> set (get_data_port_ids st)
        \<and> name \<notin> port_name ` snd ` set (input_data_ports st))
   \<and> (name \<in> port_name ` snd ` set (output_data_ports st) \<longrightarrow>
      (\<exists>m. add_output_data_port gen name dt dv pid st = (Inl (ValueError m), st)))
   \<and> (name \<in> port_name ` snd ` set (output_data_ports st)
        \<and> data_port_id (new_port gen name dt dv pid st) \<notin> set (get_data_port_ids st)
        \<and> (case parent st of None \<Rightarrow> True
            | Some c \<Rightarrow> fst (check_data_port_connection c (new_port gen name dt dv pid st))) \<longrightarrow>
      add_output_data_port gen name dt dv pid st
        = (Inl (ValueError ''data port name already existing in state's output data ports''), st))
   \<and> (isl (fst (add_output_data_port gen name dt dv pid st)) \<longrightarrow>
        snd (add_output_data_port gen name dt dv pid st) = st)
   \<and> (\<not> isl (fst (add_output_data_port gen name dt dv pid st)) \<longrightarrow>
        add_output_data_port gen name dt dv pid st
          = (Inr (data_port_id (new_port gen name dt dv pid st)),
             st\<lparr>output_data_ports := output_data_ports st
                @ [(data_port_id (new_port gen name dt dv pid st), new_port gen name dt dv pid st)]\<rparr>)
        \<and> data_port_id (new_port gen name dt dv pid st) \<notin> set (get_data_port_ids st)
        \<and> name \<notin> port_name ` snd ` set (output_data_ports st))"
proof (cases "set_parent_data_port Detached (new_port gen name dt dv pid st) st")
  case (Some e)
  obtain m where m: "e = ValueError m" using set_parent_data_port_Some[OF Some] by blast
  have i: "add_input_data_port gen name dt dv pid st = (Inl (ValueError m), st)"
    by (simp add: add_input_outcome_cases Some m)
  have out: "add_output_data_port gen name dt dv pid st = (Inl (ValueError m), st)"
    by (simp add: add_output_outcome_cases Some m)
  have nf: "\<not> (data_port_id (new_port gen name dt dv pid st) \<notin> set (get_data_port_ids st)
        \<and> (case parent st of None \<Rightarrow> True
            | Some c \<Rightarrow> fst (check_data_port_connection c (new_port gen name dt dv pid st))))"
    using set_parent_data_port_fresh[of "new_port gen name dt dv pid st" st] Some by auto
  show ?thesis unfolding i out using nf by auto
next
  case None
  have fr: "data_port_id (new_port gen name dt dv pid st) \<notin> set (get_data_port_ids st)"
    using set_parent_data_port_None[OF None] by (simp add: get_data_port_ids_def)
  show ?thesis using fr by (simp add: add_input_outcome_cases add_output_outcome_cases None Let_def)
qed


theorem add_data_port_all_or_nothing_witness:
  "add_input_data_port (\<lambda>ids. 7) ''a'' TInt PNone None ported_state
     = (Inl (ValueError ''data port name already existing in state's input data ports''), ported_state)
   \<and> add_output_data_port (\<lambda>ids. 7) ''b'' TInt PNone None ported_state
     = (Inl (ValueError ''data port name already existing in state's output data ports''), ported_state)
   \<and> add_input_data_port (\<lambda>ids. 7) ''c'' TInt PNone None ported_state
     = (Inr 7, ported_state\<lparr>input_data_ports := input_data_ports ported_state
          @ [(7, \<lparr>data_port_id = 7, port_name = ''c'', data_type = TInt, default_value = PNone\<rparr>)]\<rparr>)
   \<and> add_output_data_port (\<lambda>ids. 7) ''c'' TInt PNone None ported_state
     = (Inr 7, ported_state\<lparr>output_data_ports := output_data_ports ported_state
          @ [(7, \<lparr>data_port_id = 7, port_name = ''c'', data_type = TInt, default_value = PNone\<rparr>)]\<rparr>)"
proof -
  have ids: "get_data_port_ids ported_state = [1, 2]"
    by (simp add: get_data_port_ids_def ported_state_def fresh_state_def)
  have par: "parent ported_state = None"
    by (simp add: ported_state_def fresh_state_def)
  have ins: "input_data_ports ported_state =
      [(1, \<lparr>data_port_id = 1, port_name = ''a'', data_type = TInt, default_value = PNone\<rparr>)]"
    and outs: "output_data_ports ported_state =
      [(2, \<lparr>data_port_id = 2, port_name = ''b'', data_type = TInt, default_value = PNone\<rparr>)]"
    by (simp_all add: ported_state_def fresh_state_def)
  have ok: "set_parent_data_port Detached (new_port (\<lambda>ids. 7) ''c'' TInt PNone None ported_state) ported_state = None"
    by (rule set_parent_data_port_fresh) (simp_all add: new_port_def ids par)
  have s1: "\<not> isl (fst (add_input_data_port (\<lambda>ids. 7) ''c'' TInt PNone None ported_state))"
    by (simp add: add_input_outcome_cases ok ins Let_def)
  have s2: "\<not> isl (fst (add_output_data_port (\<lambda>ids. 7) ''c'' TInt PNone None ported_state))"
    by (simp add: add_output_outcome_cases ok outs Let_def)
  show ?thesis
    using add_data_port_all_or_nothing [where gen = "\<lambda>ids. 7" and name = "''a''" and dt = TInt
        and dv = PNone and pid = None and st = ported_state]
      add_data_port_all_or_nothing [where gen = "\<lambda>ids. 7" and name = "''b''" and dt = TInt
        and dv = PNone and pid = None and st = ported_state]
      add_data_port_all_or_nothing [where gen = "\<lambda>ids. 7" and name = "''c''" and dt = TInt
        and dv = PNone and pid = None and st = ported_state]
      s1 s2
    by (simp add: new_port_def ids par ins outs)
qed

subsection \<open>Running an execution state\<close>

lemma run_backward:
  "backward_execution st \<Longrightarrow> run sc st =
     (case execute_script sc True (state_at_call st) of
        (Inl e, st2) \<Rightarrow> if is_Exception e then handle_exception e st2 else (Some e, st2)
      | (Inr outcome, st2) \<Rightarrow>
          (None,
           finalize None
             (st2\<lparr>state_execution_status := WAIT_FOR_NEXT_STATE,
                  logger := logger st2 @ [Debug ''Finished backward executing state'']\<rparr>)))"
  by (simp add: run_def state_at_call_def setup_backward_run_def Let_def)















text \<open>
  C9, as the code has it. In backward execution, when the script builds and the body
  returns without raising, \<^verbatim>\<open>_execute\<close> returns \<open>None\<close>, the run returns without an
  exception, leaves the final outcome as it found it and the output data as the body left
  them, and it logs the three debug messages of the backward path and nothing else:
  neither type check has run.
\<close>

theorem run_backward_sets_no_outcome:
  assumes "backward_execution st" and "build_module sc = None"
    and "completion (body_call sc st) = Returned v"
  shows "fst (execute_script sc True (state_at_call st)) = Inr None
    \<and> fst (run sc st) = None
    \<and> final_outcome (snd (run sc st)) = final_outcome st
    \<and> output_data (snd (run sc st)) = new_outputs (body_call sc st)
    \<and> state_execution_status (snd (run sc st)) = WAIT_FOR_NEXT_STATE
    \<and> logger (snd (run sc st)) = logger st @
         [Debug ''Backward executing state'', Debug ''Finished backward executing state'',
          Debug ''Finished execution'']"
proof -
  let ?s = "state_at_call st"
  let ?r = "execute sc ?s (input_data ?s) (output_data ?s) True"
  have bc: "body_call sc st = ?r" using assms(1) by (simp add: body_call_def)
  have c: "completion ?r = Returned v" using assms(3) bc by simp
  have ex: "execute_script sc True ?s
      = (Inr None, ?s\<lparr>output_data := new_outputs ?r,
                        preempted := preempted ?s \<or> preempt_request ?r\<rparr>)"
    using assms(2) c by (simp add: execute_script_def Let_def)
  have lg: "logger ?s = logger st @ [Debug ''Backward executing state'']"
    and fo: "final_outcome ?s = final_outcome st"
    using assms(1) by (simp_all add: state_at_call_def setup_backward_run_def Let_def)
  show ?thesis
    using assms(1)
    by (simp add: run_backward ex bc lg fo finalize_def Let_def split: option.splits)
qed

theorem run_backward_sets_no_outcome_witness:
  "fst (run (returning_script (PInt 0)) backward_state) = None
   \<and> final_outcome (snd (run (returning_script (PInt 0)) backward_state)) = None
   \<and> output_data (snd (run (returning_script (PInt 0)) backward_state)) = []
   \<and> logger (snd (run (returning_script (PInt 0)) backward_state)) =
         [Debug ''Backward executing state'', Debug ''Finished backward executing state'',
          Debug ''Finished execution'']"
  using run_backward_sets_no_outcome [of backward_state "returning_script (PInt 0)" "PInt 0"]
  by (simp add: returning_script_def body_call_def backward_state_def fresh_state_def
      state_at_call_def setup_backward_run_def)

text \<open>
  A backward run whose body raises does set a final outcome: the \<^verbatim>\<open>except\<close> clause
  finalizes with "aborted".
\<close>

theorem run_backward_raising_sets_aborted:
  "backward_execution backward_state
   \<and> final_outcome backward_state = None
   \<and> final_outcome (snd (run (raising_script (Exception ''boom'')) backward_state)) = Some aborted"
  by (simp add: run_def raising_script_def backward_state_def fresh_state_def setup_backward_run_def
      execute_script_def handle_exception_def finalize_def aborted_def Let_def)

subsection \<open>Default input values\<close>










subsection \<open>What the code does guarantee about the reserved outcomes\<close>

text \<open>
  \<^verbatim>\<open>remove_outcome\<close> without \<open>force\<close> refuses the ids \<open>-1\<close> and \<open>-2\<close> and changes
  nothing; and whenever the setter of \<^verbatim>\<open>outcomes\<close> returns without an exception, both
  reserved outcomes are present.
\<close>

lemma remove_reserved_outcome_refused:
  "oid = - 1 \<or> oid = - 2 \<Longrightarrow>
     fst (remove_outcome oid False st) \<noteq> None \<and> snd (remove_outcome oid False st) = st"
  by (auto simp: remove_outcome_def)

lemma insert_reserved_done:
  "insert_reserved i n st = (None, st') \<Longrightarrow>
     has_key i (outcomes st') \<and> (\<forall>j. has_key j (outcomes st) \<longrightarrow> has_key j (outcomes st'))"
  by (auto simp: insert_reserved_def has_key_def update_fresh split: if_splits option.splits)

lemma outcomes_setter_done:
  assumes "fst (outcomes_setter new st) = None"
  shows "has_key (- 1) (outcomes (snd (outcomes_setter new st)))
    \<and> has_key (- 2) (outcomes (snd (outcomes_setter new st)))"
proof -
  let ?st1 = "st\<lparr>outcomes := new\<rparr>"
  from assms obtain st2 where a: "insert_reserved (- 1) ''aborted'' ?st1 = (None, st2)"
    and r: "outcomes_setter new st = insert_reserved (- 2) ''preempted'' st2"
    by (auto simp: outcomes_setter_def Let_def split: if_splits option.splits prod.splits)
  obtain st3 where b: "insert_reserved (- 2) ''preempted'' st2 = (None, st3)"
    using assms r by (cases "insert_reserved (- 2) ''preempted'' st2") auto
  show ?thesis using insert_reserved_done[OF a] insert_reserved_done[OF b] by (simp add: r b)
qed

end
